theory Spec2Isabelle
  imports Complex_Main
begin

section \<open>The precision plugin of PyTorch Lightning\<close>

text \<open>
  A shallow embedding of \<^verbatim>\<open>pytorch_lightning/plugins/precision/precision_plugin.py\<close>,
  the base class \<^verbatim>\<open>PrecisionPlugin\<close>. The methods of the class call into collaborators
  (the model, the trainer, the optimizer, the tensor library) whose code is elsewhere, so a
  method is a state transformer over a \<open>world\<close> that records every such call, in order,
  and that holds the one field of a collaborator the class writes
  (\<^verbatim>\<open>_current_fx_name\<close> of the trainer's lightning module). A Python exception is the
  \<open>Inl\<close> branch of the result; the world a method has reached when it raises is kept.
\<close>

subsection \<open>Python values\<close>

datatype exn =
    TypeError
  | AttributeError
  | ValueError
  | OverflowError
  | Raised string  \<comment> \<open>an exception that leaves a collaborator's code\<close>

text \<open>A Python float: a finite double (a rational), an infinity or a NaN.\<close>

datatype pyfloat = Finite rat | PosInf | NegInf | NaN

text \<open>\<^verbatim>\<open>Union[int, float]\<close> and \<^verbatim>\<open>Union[int, float, str]\<close>.\<close>

datatype pynum = IntNum int | FloatNum pyfloat

datatype norm_spec = NormNum pynum | NormStr string

text \<open>Objects the class only hands on are references (object identities).\<close>

datatype tensor = Tensor nat

type_synonym py_obj = nat
type_synonym py_args = "py_obj list"
type_synonym py_kwargs = "(string \<times> py_obj) list"

text \<open>The dictionary \<^verbatim>\<open>grad_norm\<close> returns, in insertion order.\<close>

type_synonym norm_dict = "(string \<times> pyfloat) list"

datatype GradClipAlgorithmType = VALUE | NORM

subsection \<open>Collaborators\<close>

text \<open>
  An entry of \<^verbatim>\<open>optimizer.param_groups\<close>: the list under the key \<^verbatim>\<open>"params"\<close> and the
  group's remaining keys.
\<close>

record param_group =
  params :: "tensor list"
  options :: "(string \<times> pyfloat) list"

record optimizer =
  optimizer_id :: nat
  param_groups :: "param_group list"

record logger =
  group_separator :: string

record trainer =
  track_grad_norm :: norm_spec
  gradient_clip_val :: pynum
  gradient_clip_algorithm :: GradClipAlgorithmType
  logger :: logger
  lightning_module :: nat  \<comment> \<open>the module \<^verbatim>\<open>trainer.lightning_module\<close> refers to\<close>

record module_obj =
  module_id :: nat
  automatic_optimization :: bool
  trainer :: trainer

text \<open>
  A \<^verbatim>\<open>torch.nn.Module\<close> that is not a \<^verbatim>\<open>LightningModule\<close>. \<^verbatim>\<open>torch.nn.Module\<close> defines
  neither \<^verbatim>\<open>trainer\<close> nor \<^verbatim>\<open>configure_gradient_clipping\<close>, so such an object has them only
  when its own class or some caller has set them: \<open>attr_trainer\<close> is \<open>None\<close> where the
  object has no attribute \<^verbatim>\<open>trainer\<close>, and \<open>attr_configure_gradient_clipping\<close> tells
  whether it has that method. Reading an attribute an object does not have raises
  \<^verbatim>\<open>AttributeError\<close>.
\<close>

record torch_module =
  torch_module_id :: nat
  attr_trainer :: "trainer option"
  attr_configure_gradient_clipping :: bool

text \<open>
  What a \<^verbatim>\<open>model\<close> argument can be: an instance of \<^verbatim>\<open>pl.LightningModule\<close> or another
  \<^verbatim>\<open>torch.nn.Module\<close>; Python's \<^verbatim>\<open>None\<close> is the \<open>None\<close> of \<open>model option\<close>.
\<close>

datatype model = LightningModule module_obj | Module torch_module

text \<open>\<^verbatim>\<open>model.trainer\<close>, \<open>None\<close> where the read raises \<^verbatim>\<open>AttributeError\<close>.\<close>

fun model_trainer :: "model \<Rightarrow> trainer option" where
  "model_trainer (LightningModule m) = Some (trainer m)"
| "model_trainer (Module m) = attr_trainer m"

text \<open>Whether \<^verbatim>\<open>model.configure_gradient_clipping\<close> is there to be called.\<close>

fun has_configure_gradient_clipping :: "model \<Rightarrow> bool" where
  "has_configure_gradient_clipping (LightningModule m) = True"
| "has_configure_gradient_clipping (Module m) = attr_configure_gradient_clipping m"

fun isinstance_LightningModule :: "model \<Rightarrow> bool" where
  "isinstance_LightningModule (LightningModule m) = True"
| "isinstance_LightningModule (Module m) = False"

subsection \<open>The world: the calls made so far and the module's hook name\<close>

text \<open>
  The first two events mark the entry into a method of the plugin itself; the others are
  calls that leave the class. \<open>Log_grad_norm\<close> carries the value \<^verbatim>\<open>_current_fx_name\<close>
  has while the call runs.
\<close>

datatype event =
    Enter_track_grad_norm
  | Enter_clip_gradients optimizer int pynum GradClipAlgorithmType "model option"
  | Grad_norm nat norm_spec string
  | Log_grad_norm nat norm_dict "string option"
  | Configure_gradient_clipping model optimizer int pynum GradClipAlgorithmType
  | Call_hook string optimizer int
  | Model_backward module_obj tensor "optimizer option" py_args py_kwargs
  | Tensor_backward tensor py_args py_kwargs
  | Optimizer_step optimizer py_kwargs
  | Other_call string  \<comment> \<open>any other call, by its name\<close>

record world =
  trace :: "event list"
  current_fx_name :: "string option"

text \<open>
  What the collaborators answer. A call that returns nothing either returns or raises
  (\<open>outcome\<close>); \<^verbatim>\<open>grad_norm\<close> returns a dictionary, \<^verbatim>\<open>None\<close>, or raises; \<^verbatim>\<open>float\<close> of a
  string is Python's parser, \<open>None\<close> where it raises \<^verbatim>\<open>ValueError\<close>. Each answer may depend
  on the arguments and on the world, which the collaborator reads and leaves as it is.
\<close>

record env =
  outcome :: "event \<Rightarrow> world \<Rightarrow> exn option"
  grad_norm :: "nat \<Rightarrow> norm_spec \<Rightarrow> string \<Rightarrow> world \<Rightarrow> exn + norm_dict option"
  float_of_str :: "string \<Rightarrow> pyfloat option"

type_synonym 'a prog = "world \<Rightarrow> (exn + 'a) \<times> world"

definition return :: "'a \<Rightarrow> 'a prog" where
  "return v = (\<lambda>w. (Inr v, w))"

definition raise :: "exn \<Rightarrow> 'a prog" where
  "raise e = (\<lambda>w. (Inl e, w))"

definition bind :: "'a prog \<Rightarrow> ('a \<Rightarrow> 'b prog) \<Rightarrow> 'b prog" where
  "bind m k = (\<lambda>w. case m w of (Inl e, w') \<Rightarrow> (Inl e, w') | (Inr v, w') \<Rightarrow> k v w')"

definition then_do :: "unit prog \<Rightarrow> 'a prog \<Rightarrow> 'a prog" where
  "then_do m k = bind m (\<lambda>_. k)"

definition emit :: "event \<Rightarrow> unit prog" where
  "emit ev = (\<lambda>w. (Inr (), w\<lparr>trace := trace w @ [ev]\<rparr>))"

text \<open>A call of a collaborator: it is recorded, then it returns or raises.\<close>

definition call :: "env \<Rightarrow> event \<Rightarrow> unit prog" where
  "call E ev = (\<lambda>w. case outcome E ev w of
        None \<Rightarrow> (Inr (), w\<lparr>trace := trace w @ [ev]\<rparr>)
      | Some e \<Rightarrow> (Inl e, w\<lparr>trace := trace w @ [ev]\<rparr>))"

text \<open>The events a run has added to the trace it started from.\<close>

definition new_events :: "world \<Rightarrow> world \<Rightarrow> event list" where
  "new_events w w' = drop (length (trace w)) (trace w')"

text \<open>The events that are calls of a collaborator, and those a run has added.\<close>

fun is_call :: "event \<Rightarrow> bool" where
  "is_call Enter_track_grad_norm = False"
| "is_call (Enter_clip_gradients optimizer optimizer_idx clip_val clip_algorithm model) = False"
| "is_call ev = True"

definition calls_made :: "world \<Rightarrow> world \<Rightarrow> event list" where
  "calls_made w w' = filter is_call (new_events w w')"

text \<open>The entries into the plugin's own methods a run has added.\<close>

definition entries_made :: "world \<Rightarrow> world \<Rightarrow> event list" where
  "entries_made w w' = filter (\<lambda>ev. \<not> is_call ev) (new_events w w')"

text \<open>
  The events of gradient-norm tracking (entering the tracker, computing the norms, reporting
  them), of gradient clipping (entering the clip gate, the model's clipping hook) and of the
  optimizer consuming the gradients.
\<close>

fun is_norm_event :: "event \<Rightarrow> bool" where
  "is_norm_event Enter_track_grad_norm = True"
| "is_norm_event (Grad_norm m norm_type sep) = True"
| "is_norm_event (Log_grad_norm m d fx) = True"
| "is_norm_event ev = False"

fun is_clip_event :: "event \<Rightarrow> bool" where
  "is_clip_event (Enter_clip_gradients optimizer optimizer_idx clip_val clip_algorithm model) = True"
| "is_clip_event (Configure_gradient_clipping m optimizer optimizer_idx clip_val clip_algorithm) = True"
| "is_clip_event ev = False"

fun is_step_event :: "event \<Rightarrow> bool" where
  "is_step_event (Optimizer_step optimizer kwargs) = True"
| "is_step_event ev = False"

text \<open>\<open>none_after P Q evs\<close>: in \<open>evs\<close>, no event that is \<open>P\<close> comes after one that is \<open>Q\<close>.\<close>

fun none_after :: "(event \<Rightarrow> bool) \<Rightarrow> (event \<Rightarrow> bool) \<Rightarrow> event list \<Rightarrow> bool" where
  "none_after P Q [] = True"
| "none_after P Q (ev # evs) = ((if Q ev then filter P evs = [] else True) \<and> none_after P Q evs)"

subsection \<open>The plugin\<close>

text \<open>
  The one thing a method reads through \<^verbatim>\<open>self\<close> is
  \<^verbatim>\<open>self.trainer.accelerator_connector.use_deepspeed\<close>, in \<^verbatim>\<open>clip_gradients\<close>. The class and
  its base \<^verbatim>\<open>CheckpointHooks\<close> define no attribute \<^verbatim>\<open>trainer\<close>, so an instance has one only
  when a subclass or a caller has set it: \<open>self_trainer\<close> is \<open>None\<close> where the instance has
  none, and otherwise holds the \<^verbatim>\<open>accelerator_connector\<close> of that trainer.
\<close>

record accelerator_connector =
  use_deepspeed :: bool

record plugin =
  self_trainer :: "accelerator_connector option"

text \<open>An instance as the class builds it: \<^verbatim>\<open>PrecisionPlugin()\<close>.\<close>

definition PrecisionPlugin :: plugin where
  "PrecisionPlugin = \<lparr>self_trainer = None\<rparr>"

text \<open>\<^verbatim>\<open>connect\<close>, lines 44-48.\<close>

definition connect :: "'m \<Rightarrow> 'o list \<Rightarrow> 's list \<Rightarrow> 'm \<times> 'o list \<times> 's list" where
  "connect model optimizers lr_schedulers = (model, optimizers, lr_schedulers)"

text \<open>
  \<^verbatim>\<open>optimizer_step\<close>, lines 122-130. \<open>closure_result\<close> is \<open>None\<close> for Python's \<^verbatim>\<open>None\<close>.
\<close>

definition optimizer_step ::
  "env \<Rightarrow> module_obj \<Rightarrow> optimizer \<Rightarrow> int \<Rightarrow> tensor option \<Rightarrow> py_kwargs \<Rightarrow> unit prog" where
  "optimizer_step E model optimizer optimizer_idx closure_result kwargs =
     (let skipped_backward = (closure_result = None) in
      if \<not> automatic_optimization model \<or> \<not> skipped_backward
      then call E (Optimizer_step optimizer kwargs)
      else return ())"

text \<open>
  The test \<^verbatim>\<open>float(trainer.track_grad_norm) == -1\<close> of line 134. \<^verbatim>\<open>float\<close> rounds an
  \<^verbatim>\<open>int\<close> to the nearest double and raises \<^verbatim>\<open>OverflowError\<close> beyond the doubles' range;
  rounding is monotone and leaves \<open>-1\<close> as it is, so the result is \<open>-1\<close> exactly for the
  \<^verbatim>\<open>int\<close> \<open>-1\<close>. A float is returned as it is, a string is parsed.
\<close>

fun float_is_minus_one :: "env \<Rightarrow> norm_spec \<Rightarrow> exn + bool" where
  "float_is_minus_one E (NormNum (IntNum n)) =
     (if 2 ^ 1024 - 2 ^ 970 \<le> \<bar>n\<bar> then Inl OverflowError else Inr (n = - 1))"
| "float_is_minus_one E (NormNum (FloatNum f)) = Inr (f = Finite (- 1))"
| "float_is_minus_one E (NormStr s) =
     (case float_of_str E s of None \<Rightarrow> Inl ValueError | Some f \<Rightarrow> Inr (f = Finite (- 1)))"

text \<open>The call \<^verbatim>\<open>grad_norm(module, norm_type, group_separator)\<close> of line 136.\<close>

definition call_grad_norm :: "env \<Rightarrow> nat \<Rightarrow> norm_spec \<Rightarrow> string \<Rightarrow> (norm_dict option) prog" where
  "call_grad_norm E m norm_type sep = (\<lambda>w.
     (grad_norm E m norm_type sep w, w\<lparr>trace := trace w @ [Grad_norm m norm_type sep]\<rparr>))"

text \<open>The call \<^verbatim>\<open>module.log_grad_norm(grad_norm_dict)\<close> of line 140.\<close>

definition call_log_grad_norm :: "env \<Rightarrow> nat \<Rightarrow> norm_dict \<Rightarrow> unit prog" where
  "call_log_grad_norm E m d = (\<lambda>w. call E (Log_grad_norm m d (current_fx_name w)) w)"

definition get_current_fx_name :: "(string option) prog" where
  "get_current_fx_name = (\<lambda>w. (Inr (current_fx_name w), w))"

definition set_current_fx_name :: "string option \<Rightarrow> unit prog" where
  "set_current_fx_name v = (\<lambda>w. (Inr (), w\<lparr>current_fx_name := v\<rparr>))"

text \<open>
  \<^verbatim>\<open>_track_grad_norm\<close>, lines 132-141. \<^verbatim>\<open>if grad_norm_dict:\<close> is Python's truth test: it
  fails on \<^verbatim>\<open>None\<close> and on the empty dictionary. The run first records that the method
  is entered.
\<close>

definition private_track_grad_norm :: "env \<Rightarrow> trainer \<Rightarrow> unit prog" where
  "private_track_grad_norm E tr =
     then_do (emit Enter_track_grad_norm)
       (case float_is_minus_one E (track_grad_norm tr) of
          Inl e \<Rightarrow> raise e
        | Inr True \<Rightarrow> return ()
        | Inr False \<Rightarrow>
            bind (call_grad_norm E (lightning_module tr) (track_grad_norm tr)
                    (group_separator (logger tr)))
              (\<lambda>grad_norm_dict.
                 case grad_norm_dict of
                   None \<Rightarrow> return ()
                 | Some d \<Rightarrow>
                     if d = [] then return ()
                     else
                       bind get_current_fx_name (\<lambda>prev_fx.
                       then_do (set_current_fx_name (Some ''on_before_optimizer_step''))
                      (then_do (call_log_grad_norm E (lightning_module tr) d)
                               (set_current_fx_name prev_fx)))))"

text \<open>
  \<^verbatim>\<open>clip_gradients\<close>, lines 143-159; \<open>clip_algorithm\<close> is the parameter
  \<^verbatim>\<open>gradient_clip_algorithm\<close>. The run first records that the method is entered, with its
  arguments. Line 152 reads \<^verbatim>\<open>self.trainer\<close> first, before it tests \<^verbatim>\<open>model is None\<close>.
\<close>

definition clip_gradients ::
  "env \<Rightarrow> plugin \<Rightarrow> optimizer \<Rightarrow> int \<Rightarrow> pynum \<Rightarrow> GradClipAlgorithmType \<Rightarrow> model option
     \<Rightarrow> unit prog" where
  "clip_gradients E self optimizer optimizer_idx clip_val clip_algorithm model =
     then_do
       (emit (Enter_clip_gradients optimizer optimizer_idx clip_val clip_algorithm model))
       (case self_trainer self of
          None \<Rightarrow> raise AttributeError
        | Some connector \<Rightarrow>
            if use_deepspeed connector \<or> model = None then return ()
            else
              (case model of
                 None \<Rightarrow> return ()
               | Some m \<Rightarrow>
                   if has_configure_gradient_clipping m
                   then call E (Configure_gradient_clipping m optimizer optimizer_idx clip_val
                                  clip_algorithm)
                   else raise AttributeError))"

text \<open>
  \<^verbatim>\<open>pre_optimizer_step\<close>, lines 100-120. Line 108 reads \<^verbatim>\<open>model.trainer\<close> before anything
  else, whatever the model is.
\<close>

definition pre_optimizer_step :: "env \<Rightarrow> plugin \<Rightarrow> model \<Rightarrow> optimizer \<Rightarrow> int \<Rightarrow> unit prog" where
  "pre_optimizer_step E self model optimizer optimizer_idx =
     (case model_trainer model of
        None \<Rightarrow> raise AttributeError
      | Some tr \<Rightarrow>
          then_do (if optimizer_idx = 0 then private_track_grad_norm E tr else return ())
         (then_do (clip_gradients E self optimizer optimizer_idx (gradient_clip_val tr)
                     (gradient_clip_algorithm tr) (Some model))
                  (if isinstance_LightningModule model
                   then call E (Call_hook ''on_before_optimizer_step'' optimizer optimizer_idx)
                   else return ())))"

subsection \<open>Backward\<close>

text \<open>
  \<^verbatim>\<open>_run_backward(self, tensor, model, *args, **kwargs)\<close>, lines 93-98: the body calls
  \<^verbatim>\<open>tensor.backward(*args, **kwargs)\<close> and does not read \<^verbatim>\<open>model\<close>.
\<close>

definition private_run_backward ::
  "env \<Rightarrow> tensor \<Rightarrow> py_obj \<Rightarrow> py_args \<Rightarrow> py_kwargs \<Rightarrow> unit prog" where
  "private_run_backward E t model args kwargs = call E (Tensor_backward t args kwargs)"

text \<open>
  How Python binds the call \<^verbatim>\<open>self._run_backward(closure_loss, *args, **kwargs)\<close> of line 79
  to the parameters \<^verbatim>\<open>(self, tensor, model, *args, **kwargs)\<close>: \<^verbatim>\<open>closure_loss\<close> is
  \<^verbatim>\<open>tensor\<close>; the first extra positional argument, if there is one, is \<^verbatim>\<open>model\<close> and the
  others are \<^verbatim>\<open>*args\<close>; with no extra positional argument \<^verbatim>\<open>model\<close> is taken from the
  keyword arguments. A parameter bound twice, or \<^verbatim>\<open>model\<close> bound by nothing, is a
  \<^verbatim>\<open>TypeError\<close>, raised before the body runs.
\<close>

definition bind_run_backward ::
  "tensor \<Rightarrow> py_args \<Rightarrow> py_kwargs \<Rightarrow> exn + (tensor \<times> py_obj \<times> py_args \<times> py_kwargs)" where
  "bind_run_backward closure_loss args kwargs =
     (if ''self'' \<in> set (map fst kwargs) \<or> ''tensor'' \<in> set (map fst kwargs) then Inl TypeError
      else
        (case args of
           a # rest \<Rightarrow>
             if ''model'' \<in> set (map fst kwargs) then Inl TypeError
             else Inr (closure_loss, a, rest, kwargs)
         | [] \<Rightarrow>
             (case map_of kwargs ''model'' of
                None \<Rightarrow> Inl TypeError
              | Some m \<Rightarrow> Inr (closure_loss, m, [], filter (\<lambda>kv. fst kv \<noteq> ''model'') kwargs))))"

text \<open>
  \<^verbatim>\<open>backward\<close>, lines 60-79. Python binds a keyword named \<^verbatim>\<open>model\<close>, \<^verbatim>\<open>closure_loss\<close> or
  \<^verbatim>\<open>optimizer\<close> to the parameter of that name, so no such key reaches \<open>kwargs\<close>.
\<close>

definition backward ::
  "env \<Rightarrow> model option \<Rightarrow> tensor \<Rightarrow> optimizer option \<Rightarrow> py_args \<Rightarrow> py_kwargs \<Rightarrow> unit prog" where
  "backward E model closure_loss optimizer args kwargs =
     (case model of
        Some (LightningModule m) \<Rightarrow> call E (Model_backward m closure_loss optimizer args kwargs)
      | _ \<Rightarrow>
          (case bind_run_backward closure_loss args kwargs of
             Inl e \<Rightarrow> raise e
           | Inr (t, mo, args', kwargs') \<Rightarrow> private_run_backward E t mo args' kwargs'))"

subsection \<open>The parameter view\<close>

text \<open>
  \<^verbatim>\<open>master_params\<close>, lines 36-42, is a generator function: calling it runs none of its body
  and returns a generator object, and each \<^verbatim>\<open>next\<close> runs the body to its next \<^verbatim>\<open>yield\<close>.
  The object is the state of the two loops: what is left of the group being read (the
  \<^verbatim>\<open>yield from\<close>) and the groups not yet reached (the \<^verbatim>\<open>for\<close>).
\<close>

type_synonym generator = "tensor list \<times> param_group list"

definition master_params :: "optimizer \<Rightarrow> generator" where
  "master_params optimizer = ([], param_groups optimizer)"

text \<open>\<^verbatim>\<open>next(g)\<close>: the parameter yielded and the object afterwards, \<open>None\<close> for
  \<^verbatim>\<open>StopIteration\<close>.\<close>

fun gen_next :: "generator \<Rightarrow> (tensor \<times> generator) option" where
  "gen_next (p # ps, gs) = Some (p, (ps, gs))"
| "gen_next ([], g # gs) = gen_next (params g, gs)"
| "gen_next ([], []) = None"

text \<open>The number of parameters a generator object has still to yield.\<close>

definition remaining :: "generator \<Rightarrow> nat" where
  "remaining g = length (fst g) + sum_list (map (\<lambda>x. length (params x)) (snd g))"

text \<open>\<^verbatim>\<open>list(g)\<close>: every parameter the object yields until it is exhausted.\<close>

function gen_list :: "generator \<Rightarrow> tensor list" where
  "gen_list g = (case gen_next g of None \<Rightarrow> [] | Some (p, g') \<Rightarrow> p # gen_list g')"
  by pat_completeness auto
termination
proof -
  have step: "remaining g = Suc (remaining g')" if "gen_next g = Some (p, g')" for g p g'
    using that by (induction g rule: gen_next.induct) (auto simp: remaining_def)
  show ?thesis
    by (relation "measure remaining") (auto simp: step)
qed

declare gen_list.simps [simp del]

text \<open>
  \<^verbatim>\<open>itertools.islice(g, k)\<close> read to its end: at most \<open>k\<close> calls of \<^verbatim>\<open>next\<close>, the
  parameters they yield and the object they leave.
\<close>

fun gen_take :: "nat \<Rightarrow> generator \<Rightarrow> tensor list \<times> generator" where
  "gen_take 0 g = ([], g)"
| "gen_take (Suc k) g =
     (case gen_next g of
        None \<Rightarrow> ([], ([], []))
      | Some (p, g') \<Rightarrow> (p # fst (gen_take k g'), snd (gen_take k g')))"

subsection \<open>The step contexts\<close>

text \<open>
  A context manager: \<^verbatim>\<open>__enter__\<close>, and \<^verbatim>\<open>__exit__\<close> given the exception the body raised
  (\<open>None\<close> when it raised none), which answers whether the exception is swallowed.
\<close>

record cm =
  cm_enter :: "unit prog"
  cm_exit :: "exn option \<Rightarrow> bool prog"

text \<open>
  The second half of \<^verbatim>\<open>with c: body\<close>, from the outcome of the body: \<^verbatim>\<open>__exit__\<close> runs on
  every outcome; an exception of the body goes on unless \<^verbatim>\<open>__exit__\<close> answers true, and an
  exception of \<^verbatim>\<open>__exit__\<close> replaces it.
\<close>

fun with_exit :: "cm \<Rightarrow> (exn + unit) \<times> world \<Rightarrow> (exn + unit) \<times> world" where
  "with_exit c (Inr u, w) =
     (case cm_exit c None w of (Inl e', w') \<Rightarrow> (Inl e', w') | (Inr b, w') \<Rightarrow> (Inr (), w'))"
| "with_exit c (Inl e, w) =
     (case cm_exit c (Some e) w of
        (Inl e', w') \<Rightarrow> (Inl e', w')
      | (Inr b, w') \<Rightarrow> (if b then Inr () else Inl e, w'))"

text \<open>\<^verbatim>\<open>with c: body\<close>. The body does not run when \<^verbatim>\<open>__enter__\<close> raises.\<close>

definition with_stmt :: "cm \<Rightarrow> unit prog \<Rightarrow> unit prog" where
  "with_stmt c body = (\<lambda>w.
     case cm_enter c w of
       (Inl e, w') \<Rightarrow> (Inl e, w')
     | (Inr u, w') \<Rightarrow> with_exit c (body w'))"

text \<open>
  The two bodies the generator functions of lines 180-207 have: a bare \<^verbatim>\<open>yield\<close>, and
  \<^verbatim>\<open>with c: yield\<close>.
\<close>

datatype gen_body = Yield | With_Yield cm

text \<open>The first \<^verbatim>\<open>next\<close> of such a generator: the body up to its \<^verbatim>\<open>yield\<close>.\<close>

fun gen_start :: "gen_body \<Rightarrow> unit prog" where
  "gen_start Yield = return ()"
| "gen_start (With_Yield c) = cm_enter c"

text \<open>
  The suspended \<^verbatim>\<open>yield\<close> when the generator is resumed: \<^verbatim>\<open>next\<close> (\<open>None\<close>) lets it
  finish, \<^verbatim>\<open>throw(e)\<close> (\<open>Some e\<close>) raises \<open>e\<close> there.
\<close>

fun yield_resume :: "exn option \<Rightarrow> unit prog" where
  "yield_resume None = return ()"
| "yield_resume (Some e) = raise e"

text \<open>
  The body from its \<^verbatim>\<open>yield\<close> on: \<open>Inr\<close> when the generator returns, \<open>Inl\<close> when an
  exception leaves it. In \<^verbatim>\<open>with c: yield\<close> the \<^verbatim>\<open>yield\<close> is the body of the \<^verbatim>\<open>with\<close>.
\<close>

fun gen_resume :: "gen_body \<Rightarrow> exn option \<Rightarrow> unit prog" where
  "gen_resume Yield r = yield_resume r"
| "gen_resume (With_Yield c) r = (\<lambda>w. with_exit c (yield_resume r w))"

text \<open>
  \<^verbatim>\<open>contextlib.contextmanager\<close>: \<^verbatim>\<open>__enter__\<close> runs the generator to its \<^verbatim>\<open>yield\<close>;
  \<^verbatim>\<open>__exit__\<close> resumes it. After \<^verbatim>\<open>next\<close> the generator's return answers false. After
  \<^verbatim>\<open>throw(e)\<close> the generator's return answers true (it has swallowed \<open>e\<close>), \<open>e\<close> itself
  coming back out answers false, and any other exception is raised.
\<close>

definition contextmanager :: "gen_body \<Rightarrow> cm" where
  "contextmanager g =
     \<lparr>cm_enter = gen_start g,
      cm_exit = (\<lambda>r w.
        case r of
          None \<Rightarrow>
            (case gen_resume g None w of
               (Inl e', w') \<Rightarrow> (Inl e', w')
             | (Inr u, w') \<Rightarrow> (Inr False, w'))
        | Some e \<Rightarrow>
            (case gen_resume g (Some e) w of
               (Inl e', w') \<Rightarrow> (if e' = e then (Inr False, w') else (Inl e', w'))
             | (Inr u, w') \<Rightarrow> (Inr True, w')))\<rparr>"

text \<open>\<^verbatim>\<open>forward_context\<close>, lines 180-183.\<close>

definition forward_context :: cm where
  "forward_context = contextmanager Yield"

text \<open>
  The four step contexts, lines 185-207. Each calls \<^verbatim>\<open>self.forward_context()\<close>, a method a
  subclass may override, so the context manager that call returns is the argument; for the
  base class it is \<open>forward_context\<close>.
\<close>

definition train_step_context :: "cm \<Rightarrow> cm" where
  "train_step_context self_forward_context = contextmanager (With_Yield self_forward_context)"

definition val_step_context :: "cm \<Rightarrow> cm" where
  "val_step_context self_forward_context = contextmanager (With_Yield self_forward_context)"

definition test_step_context :: "cm \<Rightarrow> cm" where
  "test_step_context self_forward_context = contextmanager (With_Yield self_forward_context)"

definition predict_step_context :: "cm \<Rightarrow> cm" where
  "predict_step_context self_forward_context = contextmanager (With_Yield self_forward_context)"

section \<open>Concrete instances\<close>

text \<open>
  An optimizer with three parameter groups: the second is empty, and the parameter
  \<open>Tensor 0\<close> stands in the first group and in the third.
\<close>

definition example_optimizer :: optimizer where
  "example_optimizer =
     \<lparr>optimizer_id = 7,
      param_groups =
        [\<lparr>params = [Tensor 0, Tensor 1, Tensor 2], options = [(''lr'', Finite (1 / 10))]\<rparr>,
         \<lparr>params = [], options = []\<rparr>,
         \<lparr>params = [Tensor 3, Tensor 0], options = []\<rparr>]\<rparr>"

definition example_trainer :: "norm_spec \<Rightarrow> trainer" where
  "example_trainer spec =
     \<lparr>track_grad_norm = spec,
      gradient_clip_val = FloatNum (Finite (1 / 2)),
      gradient_clip_algorithm = VALUE,
      logger = \<lparr>group_separator = ''/''\<rparr>,
      lightning_module = 1\<rparr>"

definition example_module :: "bool \<Rightarrow> norm_spec \<Rightarrow> module_obj" where
  "example_module automatic spec =
     \<lparr>module_id = 1, automatic_optimization = automatic, trainer = example_trainer spec\<rparr>"

definition example_world :: world where
  "example_world = \<lparr>trace = [], current_fx_name = Some ''optimizer_step''\<rparr>"

text \<open>
  Collaborators that never raise; \<^verbatim>\<open>grad_norm\<close> returns the dictionary it is given here.
\<close>

definition quiet_env :: "norm_dict option \<Rightarrow> env" where
  "quiet_env d =
     \<lparr>outcome = (\<lambda>ev w. None),
      grad_norm = (\<lambda>m norm_type sep w. Inr d),
      float_of_str = (\<lambda>s. if s = ''inf'' then Some PosInf else None)\<rparr>"

text \<open>Collaborators of which \<^verbatim>\<open>grad_norm\<close> raises.\<close>

definition raising_env :: env where
  "raising_env =
     \<lparr>outcome = (\<lambda>ev w. None),
      grad_norm = (\<lambda>m norm_type sep w. Inl (Raised ''grad_norm'')),
      float_of_str = (\<lambda>s. if s = ''inf'' then Some PosInf else None)\<rparr>"

text \<open>A plugin whose \<^verbatim>\<open>trainer\<close> has been set, away from DeepSpeed.\<close>

definition example_plugin :: plugin where
  "example_plugin = \<lparr>self_trainer = Some \<lparr>use_deepspeed = False\<rparr>\<rparr>"

text \<open>
  A \<^verbatim>\<open>torch.nn.Module\<close> with none of the attributes of a \<^verbatim>\<open>LightningModule\<close>, such as
  \<^verbatim>\<open>torch.nn.Linear(1, 1)\<close>.
\<close>

definition plain_module :: model where
  "plain_module =
     Module \<lparr>torch_module_id = 2, attr_trainer = None, attr_configure_gradient_clipping = False\<rparr>"

text \<open>
  A \<^verbatim>\<open>forward_context\<close> of a subclass that records its \<^verbatim>\<open>__enter__\<close> and its \<^verbatim>\<open>__exit__\<close>
  and swallows nothing, and a body that records its run and raises.
\<close>

definition recording_context :: cm where
  "recording_context =
     \<lparr>cm_enter = emit (Other_call ''__enter__''),
      cm_exit = (\<lambda>r. then_do (emit (Other_call ''__exit__'')) (return False))\<rparr>"

definition failing_body :: "unit prog" where
  "failing_body = then_do (emit (Other_call ''training_step'')) (raise (Raised ''training_step''))"

section \<open>The optimizer step\<close>

text \<open>
  Claim C1. \<^verbatim>\<open>optimizer_step\<close> calls \<^verbatim>\<open>optimizer.step\<close> if and only if it is not the case
  that the model is in automatic optimization and the closure result is \<^verbatim>\<open>None\<close>: the one
  call, with the keyword arguments handed on, is all the run adds to the trace, and nothing
  is added when the step is skipped. So the step runs on a loss in either mode, and on
  \<^verbatim>\<open>None\<close> in manual optimization.
\<close>

theorem optimizer_step_iff:
  "new_events w (snd (optimizer_step E model optimizer optimizer_idx closure_result kwargs w)) =
     (if automatic_optimization model \<and> closure_result = None then []
      else [Optimizer_step optimizer kwargs])
   \<and> (Optimizer_step optimizer kwargs
        \<in> set (new_events w
                 (snd (optimizer_step E model optimizer optimizer_idx closure_result kwargs w)))
      \<longleftrightarrow> \<not> (automatic_optimization model \<and> closure_result = None))"
  by (simp add: optimizer_step_def call_def return_def new_events_def split: option.splits)

theorem optimizer_step_iff_witness:
  "new_events example_world
     (snd (optimizer_step (quiet_env None) (example_module True (NormNum (IntNum (- 1))))
             example_optimizer 0 None [] example_world)) = []
   \<and> new_events example_world
     (snd (optimizer_step (quiet_env None) (example_module False (NormNum (IntNum (- 1))))
             example_optimizer 0 None [] example_world)) = [Optimizer_step example_optimizer []]
   \<and> new_events example_world
     (snd (optimizer_step (quiet_env None) (example_module True (NormNum (IntNum (- 1))))
             example_optimizer 0 (Some (Tensor 9)) [] example_world))
       = [Optimizer_step example_optimizer []]"
  using
    optimizer_step_iff [of example_world "quiet_env None"
      "example_module True (NormNum (IntNum (- 1)))" example_optimizer 0 None "[]"]
    optimizer_step_iff [of example_world "quiet_env None"
      "example_module False (NormNum (IntNum (- 1)))" example_optimizer 0 None "[]"]
    optimizer_step_iff [of example_world "quiet_env None"
      "example_module True (NormNum (IntNum (- 1)))" example_optimizer 0 "Some (Tensor 9)" "[]"]
  by (simp add: example_module_def)

section \<open>Connecting the plugin\<close>

text \<open>
  Claim C9. \<^verbatim>\<open>connect\<close> returns the model, the list of optimizers and the list of
  learning-rate schedulers it was given, unchanged and in that order.
\<close>

theorem connect_identity:
  "connect model optimizers lr_schedulers = (model, optimizers, lr_schedulers)
   \<and> fst (connect model optimizers lr_schedulers) = model
   \<and> fst (snd (connect model optimizers lr_schedulers)) = optimizers
   \<and> snd (snd (connect model optimizers lr_schedulers)) = lr_schedulers"
  by (simp add: connect_def)

theorem connect_identity_witness:
  "connect (example_module True (NormStr ''inf'')) [example_optimizer, example_optimizer] [3::nat]
     = (example_module True (NormStr ''inf''), [example_optimizer, example_optimizer], [3])"
  using connect_identity [of "example_module True (NormStr ''inf'')"
      "[example_optimizer, example_optimizer]" "[3::nat]"]
  by simp

section \<open>The parameter view\<close>

text \<open>What a generator object has still to yield, read off its state.\<close>

lemma gen_next_contents:
  "gen_next g = Some (p, g') \<Longrightarrow>
     fst g @ concat (map params (snd g)) = p # fst g' @ concat (map params (snd g'))"
  by (induction g rule: gen_next.induct) auto

lemma gen_next_None:
  "gen_next g = None \<Longrightarrow> fst g @ concat (map params (snd g)) = []"
  by (induction g rule: gen_next.induct) auto

lemma gen_list_contents: "gen_list g = fst g @ concat (map params (snd g))"
proof (induction g rule: gen_list.induct)
  case (1 g)
  show ?case
  proof (cases "gen_next g")
    case None
    then show ?thesis using gen_next_None[OF None] by (subst gen_list.simps) simp
  next
    case (Some a)
    obtain p g' where a: "a = (p, g')" by (cases a)
    have "gen_list g = p # gen_list g'" using Some a by (subst gen_list.simps) simp
    also have "gen_list g' = fst g' @ concat (map params (snd g'))"
      using 1 Some a by simp
    finally show ?thesis using gen_next_contents[of g p g'] Some a by simp
  qed
qed

lemma gen_take_contents:
  "fst (gen_take k g) = take k (fst g @ concat (map params (snd g)))"
proof (induction k arbitrary: g)
  case 0
  show ?case by simp
next
  case (Suc k)
  show ?case
  proof (cases "gen_next g")
    case None
    then show ?thesis using gen_next_None[OF None] by simp
  next
    case (Some a)
    obtain p g' where a: "a = (p, g')" by (cases a)
    show ?thesis using Some a Suc[of g'] gen_next_contents[of g p g'] by simp
  qed
qed

text \<open>
  Claim C2. Read to its end, the generator \<^verbatim>\<open>master_params\<close> returns yields the
  concatenation of the groups' parameter lists, in the groups' order: nothing is left out,
  moved, repeated or merged. It is lazy: \<open>k\<close> calls of \<^verbatim>\<open>next\<close> yield the first \<open>k\<close>
  parameters of that concatenation.
\<close>

theorem master_params_concat:
  "gen_list (master_params optimizer) = concat (map params (param_groups optimizer))
   \<and> (\<forall>k. fst (gen_take k (master_params optimizer))
           = take k (concat (map params (param_groups optimizer))))"
  by (simp add: gen_list_contents gen_take_contents master_params_def)

theorem master_params_concat_witness:
  "gen_list (master_params example_optimizer)
     = [Tensor 0, Tensor 1, Tensor 2, Tensor 3, Tensor 0]
   \<and> fst (gen_take 4 (master_params example_optimizer))
     = [Tensor 0, Tensor 1, Tensor 2, Tensor 3]"
proof -
  have all: "concat (map params (param_groups example_optimizer))
      = [Tensor 0, Tensor 1, Tensor 2, Tensor 3, Tensor 0]"
    by (simp add: example_optimizer_def)
  from master_params_concat [of example_optimizer]
  have "gen_list (master_params example_optimizer)
      = concat (map params (param_groups example_optimizer))"
    and "fst (gen_take 4 (master_params example_optimizer))
      = take 4 (concat (map params (param_groups example_optimizer)))"
    by blast+
  then show ?thesis by (simp add: all)
qed

section \<open>The clip gate\<close>

text \<open>
  Claim C4. On an instance as the class builds it, \<^verbatim>\<open>clip_gradients\<close> raises
  \<^verbatim>\<open>AttributeError\<close> whatever the model is, \<^verbatim>\<open>None\<close> included: line 152 reads
  \<^verbatim>\<open>self.trainer\<close>, which nothing in the class sets, before it looks at the model. It
  neither returns as a no-op nor calls the model's clipping hook.
\<close>

theorem clip_gradients_without_trainer_raises:
  "clip_gradients E PrecisionPlugin optimizer optimizer_idx clip_val clip_algorithm model w
     = (Inl AttributeError,
        w\<lparr>trace := trace w @
            [Enter_clip_gradients optimizer optimizer_idx clip_val clip_algorithm model]\<rparr>)
   \<and> calls_made w
       (snd (clip_gradients E PrecisionPlugin optimizer optimizer_idx clip_val clip_algorithm
               model w)) = []"
  by (simp add: clip_gradients_def PrecisionPlugin_def raise_def emit_def then_do_def bind_def
        new_events_def calls_made_def)

text \<open>
  The clip gate on an instance whose \<^verbatim>\<open>trainer\<close> has been set. It calls no collaborator
  when DeepSpeed is in use or when the model is \<^verbatim>\<open>None\<close>: it returns, and the world is the
  one it started from but for the mark of its own entry. Otherwise it makes one call, the
  model's \<^verbatim>\<open>configure_gradient_clipping\<close>, with the optimizer, the optimizer index, the clip
  value and the clip algorithm it was given; a model without that method makes it raise
  \<^verbatim>\<open>AttributeError\<close>. It never writes \<^verbatim>\<open>_current_fx_name\<close>.
\<close>

theorem clip_gradients_gate:
  "self_trainer self = Some connector \<longrightarrow>
     calls_made w
       (snd (clip_gradients E self optimizer optimizer_idx clip_val clip_algorithm model w)) =
       (case model of
          None \<Rightarrow> []
        | Some m \<Rightarrow>
            if use_deepspeed connector \<or> \<not> has_configure_gradient_clipping m then []
            else [Configure_gradient_clipping m optimizer optimizer_idx clip_val clip_algorithm])
     \<and> current_fx_name
          (snd (clip_gradients E self optimizer optimizer_idx clip_val clip_algorithm model w))
         = current_fx_name w
     \<and> (use_deepspeed connector \<or> model = None \<longrightarrow>
         clip_gradients E self optimizer optimizer_idx clip_val clip_algorithm model w
           = (Inr (),
              w\<lparr>trace := trace w @
                  [Enter_clip_gradients optimizer optimizer_idx clip_val clip_algorithm model]\<rparr>))
     \<and> (\<not> use_deepspeed connector \<and> model = Some m \<and> \<not> has_configure_gradient_clipping m \<longrightarrow>
         fst (clip_gradients E self optimizer optimizer_idx clip_val clip_algorithm model w)
           = Inl AttributeError)"
  by (auto simp add: clip_gradients_def call_def return_def raise_def emit_def then_do_def
        bind_def new_events_def calls_made_def split: option.splits)

theorem clip_gradients_gate_witness:
  "calls_made example_world
     (snd (clip_gradients (quiet_env None) example_plugin example_optimizer 0
             (FloatNum (Finite (1 / 2))) VALUE
             (Some (LightningModule (example_module True (NormNum (IntNum 2))))) example_world))
     = [Configure_gradient_clipping (LightningModule (example_module True (NormNum (IntNum 2))))
          example_optimizer 0 (FloatNum (Finite (1 / 2))) VALUE]
   \<and> calls_made example_world
     (snd (clip_gradients (quiet_env None) \<lparr>self_trainer = Some \<lparr>use_deepspeed = True\<rparr>\<rparr>
             example_optimizer 0 (FloatNum (Finite (1 / 2))) VALUE
             (Some (LightningModule (example_module True (NormNum (IntNum 2))))) example_world))
     = []
   \<and> clip_gradients (quiet_env None) example_plugin example_optimizer 0
        (FloatNum (Finite (1 / 2))) VALUE None example_world
     = (Inr (),
        example_world\<lparr>trace :=
          [Enter_clip_gradients example_optimizer 0 (FloatNum (Finite (1 / 2))) VALUE None]\<rparr>)"
proof -
  have set: "self_trainer example_plugin = Some \<lparr>use_deepspeed = False\<rparr>"
    by (simp add: example_plugin_def)
  have set': "self_trainer \<lparr>self_trainer = Some \<lparr>use_deepspeed = True\<rparr>\<rparr>
      = Some \<lparr>use_deepspeed = True\<rparr>"
    by simp
  note a = clip_gradients_gate [of example_plugin "\<lparr>use_deepspeed = False\<rparr>" example_world
      "quiet_env None" example_optimizer 0 "FloatNum (Finite (1 / 2))" VALUE
      "Some (LightningModule (example_module True (NormNum (IntNum 2))))", rule_format, OF set]
  note b = clip_gradients_gate [of "\<lparr>self_trainer = Some \<lparr>use_deepspeed = True\<rparr>\<rparr>"
      "\<lparr>use_deepspeed = True\<rparr>" example_world
      "quiet_env None" example_optimizer 0 "FloatNum (Finite (1 / 2))" VALUE
      "Some (LightningModule (example_module True (NormNum (IntNum 2))))", rule_format, OF set']
  note c = clip_gradients_gate [of example_plugin "\<lparr>use_deepspeed = False\<rparr>" example_world
      "quiet_env None" example_optimizer 0 "FloatNum (Finite (1 / 2))" VALUE None,
      rule_format, OF set]
  from a [THEN conjunct1] b [THEN conjunct1] c [THEN conjunct2, THEN conjunct2, THEN conjunct1]
  show ?thesis by (simp add: example_world_def)
qed

section \<open>Gradient-norm tracking\<close>

text \<open>
  Claim C5. When \<^verbatim>\<open>float(trainer.track_grad_norm)\<close> is \<open>-1\<close>, as it is for the \<^verbatim>\<open>int\<close>
  \<open>-1\<close> and for the float \<open>-1.0\<close>, \<^verbatim>\<open>_track_grad_norm\<close> returns at
  once: it calls no collaborator (no norm is computed, nothing is logged) and leaves the
  world as it was but for the mark of its own entry. When tracking is on and
  \<^verbatim>\<open>grad_norm\<close> returns an empty dictionary or \<^verbatim>\<open>None\<close>, computing the norms is the only
  call: nothing is logged, \<^verbatim>\<open>_current_fx_name\<close> is not written, and the method returns
  without raising.
\<close>

theorem track_grad_norm_disabled_or_empty:
  "(float_is_minus_one E (track_grad_norm tr) = Inr True \<longrightarrow>
      private_track_grad_norm E tr w = (Inr (), w\<lparr>trace := trace w @ [Enter_track_grad_norm]\<rparr>)
      \<and> calls_made w (snd (private_track_grad_norm E tr w)) = [])
   \<and> (float_is_minus_one E (track_grad_norm tr) = Inr False
       \<and> grad_norm E (lightning_module tr) (track_grad_norm tr) (group_separator (logger tr))
            (w\<lparr>trace := trace w @ [Enter_track_grad_norm]\<rparr>) = Inr d
       \<and> (d = None \<or> d = Some []) \<longrightarrow>
      fst (private_track_grad_norm E tr w) = Inr ()
      \<and> calls_made w (snd (private_track_grad_norm E tr w))
          = [Grad_norm (lightning_module tr) (track_grad_norm tr) (group_separator (logger tr))]
      \<and> current_fx_name (snd (private_track_grad_norm E tr w)) = current_fx_name w)
   \<and> float_is_minus_one E (NormNum (IntNum (- 1))) = Inr True
   \<and> float_is_minus_one E (NormNum (FloatNum (Finite (- 1)))) = Inr True"
  by (auto simp add: private_track_grad_norm_def call_grad_norm_def return_def emit_def
        then_do_def bind_def new_events_def calls_made_def)

theorem track_grad_norm_disabled_or_empty_witness:
  "float_is_minus_one (quiet_env (Some [(''grad_2.0_norm_total'', Finite 3)]))
      (track_grad_norm (example_trainer (NormNum (IntNum (- 1))))) = Inr True
   \<and> private_track_grad_norm (quiet_env (Some [(''grad_2.0_norm_total'', Finite 3)]))
      (example_trainer (NormNum (IntNum (- 1)))) example_world
       = (Inr (), example_world\<lparr>trace := [Enter_track_grad_norm]\<rparr>)
   \<and> float_is_minus_one (quiet_env (Some [])) (track_grad_norm (example_trainer (NormStr ''inf'')))
       = Inr False
   \<and> fst (private_track_grad_norm (quiet_env (Some [])) (example_trainer (NormStr ''inf''))
             example_world) = Inr ()
   \<and> calls_made example_world
        (snd (private_track_grad_norm (quiet_env (Some [])) (example_trainer (NormStr ''inf''))
                example_world))
       = [Grad_norm 1 (NormStr ''inf'') ''/'']"
proof -
  have off: "float_is_minus_one (quiet_env (Some [(''grad_2.0_norm_total'', Finite 3)]))
      (track_grad_norm (example_trainer (NormNum (IntNum (- 1))))) = Inr True"
    by (simp add: example_trainer_def)
  have on: "float_is_minus_one (quiet_env (Some []))
      (track_grad_norm (example_trainer (NormStr ''inf''))) = Inr False"
    by (simp add: example_trainer_def quiet_env_def)
  have empty: "grad_norm (quiet_env (Some [])) (lightning_module (example_trainer (NormStr ''inf'')))
      (track_grad_norm (example_trainer (NormStr ''inf'')))
      (group_separator (logger (example_trainer (NormStr ''inf''))))
      (example_world\<lparr>trace := trace example_world @ [Enter_track_grad_norm]\<rparr>) = Inr (Some [])"
    by (simp add: quiet_env_def)
  from off on empty
    track_grad_norm_disabled_or_empty
      [of "quiet_env (Some [(''grad_2.0_norm_total'', Finite 3)])"
        "example_trainer (NormNum (IntNum (- 1)))" example_world]
    track_grad_norm_disabled_or_empty
      [of "quiet_env (Some [])" "example_trainer (NormStr ''inf'')" example_world "Some []"]
  show ?thesis
    by (simp add: example_trainer_def example_world_def)
qed

text \<open>
  Claim C10. Whenever \<^verbatim>\<open>_track_grad_norm\<close> returns without raising, \<^verbatim>\<open>_current_fx_name\<close> of
  the trainer's lightning module is what it was before the call. When a norm report is
  emitted (tracking is on and \<^verbatim>\<open>grad_norm\<close> returns a dictionary that is not empty), the
  calls are the computation of the norms and then \<^verbatim>\<open>log_grad_norm\<close> on that dictionary, and
  the field is \<^verbatim>\<open>"on_before_optimizer_step"\<close> while \<^verbatim>\<open>log_grad_norm\<close> runs.
\<close>

theorem track_grad_norm_restores_fx_name:
  "(fst (private_track_grad_norm E tr w) = Inr () \<longrightarrow>
      current_fx_name (snd (private_track_grad_norm E tr w)) = current_fx_name w)
   \<and> (float_is_minus_one E (track_grad_norm tr) = Inr False
       \<and> grad_norm E (lightning_module tr) (track_grad_norm tr) (group_separator (logger tr))
            (w\<lparr>trace := trace w @ [Enter_track_grad_norm]\<rparr>) = Inr (Some d)
       \<and> d \<noteq> [] \<longrightarrow>
      calls_made w (snd (private_track_grad_norm E tr w))
          = [Grad_norm (lightning_module tr) (track_grad_norm tr) (group_separator (logger tr)),
             Log_grad_norm (lightning_module tr) d (Some ''on_before_optimizer_step'')])"
  by (auto simp add: private_track_grad_norm_def call_grad_norm_def call_log_grad_norm_def
        get_current_fx_name_def set_current_fx_name_def call_def return_def raise_def emit_def
        then_do_def bind_def new_events_def calls_made_def
        split: sum.splits bool.splits option.splits if_splits)

theorem track_grad_norm_restores_fx_name_witness:
  "fst (private_track_grad_norm (quiet_env (Some [(''grad_2.0_norm_total'', Finite 3)]))
          (example_trainer (NormNum (IntNum 2))) example_world) = Inr ()
   \<and> current_fx_name
        (snd (private_track_grad_norm (quiet_env (Some [(''grad_2.0_norm_total'', Finite 3)]))
                (example_trainer (NormNum (IntNum 2))) example_world))
       = Some ''optimizer_step''
   \<and> calls_made example_world
        (snd (private_track_grad_norm (quiet_env (Some [(''grad_2.0_norm_total'', Finite 3)]))
                (example_trainer (NormNum (IntNum 2))) example_world))
       = [Grad_norm 1 (NormNum (IntNum 2)) ''/'',
          Log_grad_norm 1 [(''grad_2.0_norm_total'', Finite 3)] (Some ''on_before_optimizer_step'')]"
proof -
  let ?E = "quiet_env (Some [(''grad_2.0_norm_total'', Finite 3)])"
  let ?tr = "example_trainer (NormNum (IntNum 2))"
  have returns: "fst (private_track_grad_norm ?E ?tr example_world) = Inr ()"
    by (simp add: private_track_grad_norm_def call_grad_norm_def call_log_grad_norm_def
          get_current_fx_name_def set_current_fx_name_def call_def return_def emit_def
          then_do_def bind_def example_trainer_def quiet_env_def)
  have on: "float_is_minus_one ?E (track_grad_norm ?tr) = Inr False"
    by (simp add: example_trainer_def)
  have report: "grad_norm ?E (lightning_module ?tr) (track_grad_norm ?tr)
      (group_separator (logger ?tr))
      (example_world\<lparr>trace := trace example_world @ [Enter_track_grad_norm]\<rparr>)
        = Inr (Some [(''grad_2.0_norm_total'', Finite 3)])"
    by (simp add: quiet_env_def)
  from returns on report
    track_grad_norm_restores_fx_name
      [of ?E ?tr example_world "[(''grad_2.0_norm_total'', Finite 3)]"]
  show ?thesis
    by (simp add: example_trainer_def example_world_def)
qed

section \<open>The pre-optimizer-step hook\<close>

text \<open>No event of one kind after an event of another, from where the events of each kind are.\<close>

lemma none_after_no_later: "filter P evs = [] \<Longrightarrow> none_after P Q evs"
  by (induction evs) (auto split: if_splits)

lemma none_after_no_earlier: "filter Q evs = [] \<Longrightarrow> none_after P Q evs"
  by (induction evs) (auto split: if_splits)

lemma none_after_append:
  "none_after P Q (xs @ ys) =
     (none_after P Q xs \<and> none_after P Q ys \<and> (filter Q xs = [] \<or> filter P ys = []))"
  by (induction xs) (auto split: if_splits)

lemma then_do_unfold:
  "then_do m k w = (case m w of (Inl e, w') \<Rightarrow> (Inl e, w') | (Inr v, w') \<Rightarrow> k w')"
  by (simp add: then_do_def bind_def)

text \<open>What each part of the hook, and the optimizer step after it, adds to the trace.\<close>

lemma track_grad_norm_trace:
  "\<exists>evs. trace (snd (private_track_grad_norm E tr w)) = trace w @ evs
      \<and> filter (\<lambda>ev. \<not> is_call ev) evs = [Enter_track_grad_norm]
      \<and> filter is_clip_event evs = [] \<and> filter is_step_event evs = []"
  by (auto simp add: private_track_grad_norm_def call_grad_norm_def call_log_grad_norm_def
        get_current_fx_name_def set_current_fx_name_def call_def return_def raise_def emit_def
        then_do_def bind_def
        split: sum.splits bool.splits option.splits)

lemma clip_gradients_trace:
  "\<exists>evs. trace (snd (clip_gradients E self optimizer optimizer_idx clip_val clip_algorithm model w))
        = trace w @ evs
      \<and> filter (\<lambda>ev. \<not> is_call ev) evs
          = [Enter_clip_gradients optimizer optimizer_idx clip_val clip_algorithm model]
      \<and> filter is_norm_event evs = [] \<and> filter is_step_event evs = []"
  by (auto simp add: clip_gradients_def call_def return_def raise_def emit_def then_do_def
        bind_def split: option.splits)

lemma call_hook_trace:
  "\<exists>evs. trace (snd ((if b then call E (Call_hook name optimizer optimizer_idx) else return ()) w))
        = trace w @ evs
      \<and> filter (\<lambda>ev. \<not> is_call ev) evs = []
      \<and> filter is_norm_event evs = [] \<and> filter is_clip_event evs = []
      \<and> filter is_step_event evs = []"
  by (auto simp add: call_def return_def split: option.splits)

lemma optimizer_step_trace:
  "\<exists>evs. trace (snd (optimizer_step E m optimizer optimizer_idx closure_result kwargs w))
        = trace w @ evs
      \<and> filter is_norm_event evs = [] \<and> filter is_clip_event evs = []"
  by (auto simp add: optimizer_step_def call_def return_def split: option.splits)

text \<open>
  For a model that has a trainer the hook adds three runs of events: those of the tracker,
  those of the clip gate, and the trainer hook. A part that raises ends the run.
\<close>

lemma pre_optimizer_step_trace:
  assumes tr: "model_trainer model = Some tr"
  shows "\<exists>A B C. trace (snd (pre_optimizer_step E self model optimizer optimizer_idx w))
        = trace w @ A @ B @ C
      \<and> filter (\<lambda>ev. \<not> is_call ev) A
          = (if optimizer_idx = 0 then [Enter_track_grad_norm] else [])
      \<and> filter is_clip_event A = [] \<and> filter is_step_event A = []
      \<and> filter (\<lambda>ev. \<not> is_call ev) B
          = (if optimizer_idx = 0 \<and> fst (private_track_grad_norm E tr w) \<noteq> Inr ()
             then []
             else [Enter_clip_gradients optimizer optimizer_idx (gradient_clip_val tr)
                     (gradient_clip_algorithm tr) (Some model)])
      \<and> filter is_norm_event B = [] \<and> filter is_step_event B = []
      \<and> filter (\<lambda>ev. \<not> is_call ev) C = []
      \<and> filter is_norm_event C = [] \<and> filter is_clip_event C = []
      \<and> filter is_step_event C = []"
proof -
  let ?T = "if optimizer_idx = 0 then private_track_grad_norm E tr else return ()"
  let ?K = "clip_gradients E self optimizer optimizer_idx (gradient_clip_val tr)
              (gradient_clip_algorithm tr) (Some model)"
  let ?H = "if isinstance_LightningModule model
            then call E (Call_hook ''on_before_optimizer_step'' optimizer optimizer_idx)
            else return ()"
  have unfold: "pre_optimizer_step E self model optimizer optimizer_idx = then_do ?T (then_do ?K ?H)"
    using tr by (simp add: pre_optimizer_step_def)
  obtain r1 w1 where t: "?T w = (r1, w1)" by (cases "?T w")
  obtain A where A: "trace w1 = trace w @ A"
      "filter (\<lambda>ev. \<not> is_call ev) A = (if optimizer_idx = 0 then [Enter_track_grad_norm] else [])"
      "filter is_clip_event A = []" "filter is_step_event A = []"
  proof (cases "optimizer_idx = 0")
    case True
    with track_grad_norm_trace [of E tr w] t that show ?thesis by auto
  next
    case False
    with t that [of "[]"] show ?thesis by (simp add: return_def)
  qed
  have r1: "optimizer_idx = 0 \<Longrightarrow> r1 = fst (private_track_grad_norm E tr w)"
    using t by simp
  have r1': "optimizer_idx \<noteq> 0 \<Longrightarrow> r1 = Inr ()"
    using t by (simp add: return_def)
  show ?thesis
  proof (cases r1)
    case (Inl e)
    then have "snd (pre_optimizer_step E self model optimizer optimizer_idx w) = w1"
      using t by (simp add: unfold then_do_unfold)
    moreover have "optimizer_idx = 0 \<and> fst (private_track_grad_norm E tr w) \<noteq> Inr ()"
      using Inl r1 r1' by (cases "optimizer_idx = 0") auto
    ultimately show ?thesis using A
      by (intro exI [of _ A] exI [of _ "[]"]) simp
  next
    case (Inr u)
    obtain r2 w2 where k: "?K w1 = (r2, w2)" by (cases "?K w1")
    obtain B where B: "trace w2 = trace w1 @ B"
        "filter (\<lambda>ev. \<not> is_call ev) B
          = [Enter_clip_gradients optimizer optimizer_idx (gradient_clip_val tr)
               (gradient_clip_algorithm tr) (Some model)]"
        "filter is_norm_event B = []" "filter is_step_event B = []"
      using clip_gradients_trace [of E self optimizer optimizer_idx "gradient_clip_val tr"
          "gradient_clip_algorithm tr" "Some model" w1] k
      by auto
    have noraise: "\<not> (optimizer_idx = 0 \<and> fst (private_track_grad_norm E tr w) \<noteq> Inr ())"
      using Inr r1 by auto
    show ?thesis
    proof (cases r2)
      case (Inl e)
      then have "snd (pre_optimizer_step E self model optimizer optimizer_idx w) = w2"
        using t k \<open>r1 = Inr u\<close> by (simp add: unfold then_do_unfold)
      then show ?thesis using A B noraise
        by (intro exI [of _ A] exI [of _ B] exI [of _ "[]"]) simp
    next
      case (Inr u2)
      obtain C where C: "trace (snd (?H w2)) = trace w2 @ C"
          "filter (\<lambda>ev. \<not> is_call ev) C = []"
          "filter is_norm_event C = []" "filter is_clip_event C = []"
          "filter is_step_event C = []"
        using call_hook_trace [of "isinstance_LightningModule model" E
            "''on_before_optimizer_step''" optimizer optimizer_idx w2]
        by auto
      have "snd (pre_optimizer_step E self model optimizer optimizer_idx w) = snd (?H w2)"
        using t k \<open>r1 = Inr u\<close> Inr by (simp add: unfold then_do_unfold)
      then show ?thesis using A B C noraise
        by (intro exI [of _ A] exI [of _ B] exI [of _ C]) simp
    qed
  qed
qed

text \<open>For a model that has no trainer the hook raises at line 108 and adds nothing.\<close>

lemma pre_optimizer_step_no_trainer:
  "model_trainer model = None \<Longrightarrow>
     pre_optimizer_step E self model optimizer optimizer_idx w = (Inl AttributeError, w)"
  by (simp add: pre_optimizer_step_def raise_def)

lemmas run_defs = private_track_grad_norm_def call_grad_norm_def call_log_grad_norm_def
  get_current_fx_name_def set_current_fx_name_def call_def return_def raise_def emit_def
  then_do_def bind_def clip_gradients_def pre_optimizer_step_def optimizer_step_def Let_def

text \<open>
  Claim C7. Given a \<^verbatim>\<open>torch.nn.Module\<close> that is not a \<^verbatim>\<open>LightningModule\<close> and has no
  attribute \<^verbatim>\<open>trainer\<close>, a model the signature admits and line 119 tests for,
  \<^verbatim>\<open>pre_optimizer_step\<close> raises \<^verbatim>\<open>AttributeError\<close> at line 108, whatever the optimizer index
  and whatever the plugin: it enters neither \<^verbatim>\<open>_track_grad_norm\<close> nor \<^verbatim>\<open>clip_gradients\<close>, and
  the world is left as it was.
\<close>

theorem pre_optimizer_step_plain_module_raises:
  "pre_optimizer_step E self
      (Module \<lparr>torch_module_id = i, attr_trainer = None, attr_configure_gradient_clipping = b\<rparr>)
      optimizer optimizer_idx w
     = (Inl AttributeError, w)
   \<and> pre_optimizer_step E self plain_module optimizer 0 w = (Inl AttributeError, w)
   \<and> entries_made w (snd (pre_optimizer_step E self plain_module optimizer 0 w)) = []"
  by (simp add: pre_optimizer_step_def plain_module_def raise_def entries_made_def
        new_events_def)

text \<open>
  The hook on a model that has a trainer, every \<^verbatim>\<open>LightningModule\<close> among them. It enters
  \<^verbatim>\<open>_track_grad_norm\<close> exactly when the optimizer index is 0, once and first. It then enters
  \<^verbatim>\<open>clip_gradients\<close> exactly once, with the trainer's clip value and clip algorithm and with
  the model, whatever the index, unless the tracker has raised; then the hook ends as the
  tracker did, with the tracker's exception and in the tracker's world.
\<close>

theorem pre_optimizer_step_entries:
  "model_trainer model = Some tr \<longrightarrow>
     entries_made w (snd (pre_optimizer_step E self model optimizer optimizer_idx w)) =
       (if optimizer_idx = 0 then [Enter_track_grad_norm] else []) @
       (if optimizer_idx = 0 \<and> fst (private_track_grad_norm E tr w) \<noteq> Inr () then []
        else [Enter_clip_gradients optimizer optimizer_idx (gradient_clip_val tr)
                (gradient_clip_algorithm tr) (Some model)])
     \<and> (optimizer_idx = 0 \<and> fst (private_track_grad_norm E tr w) \<noteq> Inr () \<longrightarrow>
         pre_optimizer_step E self model optimizer optimizer_idx w
           = private_track_grad_norm E tr w)"
proof (intro impI conjI)
  assume tr: "model_trainer model = Some tr"
  obtain A B C where
    "trace (snd (pre_optimizer_step E self model optimizer optimizer_idx w)) = trace w @ A @ B @ C"
    "filter (\<lambda>ev. \<not> is_call ev) A = (if optimizer_idx = 0 then [Enter_track_grad_norm] else [])"
    "filter (\<lambda>ev. \<not> is_call ev) B
          = (if optimizer_idx = 0 \<and> fst (private_track_grad_norm E tr w) \<noteq> Inr ()
             then []
             else [Enter_clip_gradients optimizer optimizer_idx (gradient_clip_val tr)
                     (gradient_clip_algorithm tr) (Some model)])"
    "filter (\<lambda>ev. \<not> is_call ev) C = []"
    using pre_optimizer_step_trace [OF tr, of E self optimizer optimizer_idx w] by blast
  then show "entries_made w (snd (pre_optimizer_step E self model optimizer optimizer_idx w)) =
       (if optimizer_idx = 0 then [Enter_track_grad_norm] else []) @
       (if optimizer_idx = 0 \<and> fst (private_track_grad_norm E tr w) \<noteq> Inr () then []
        else [Enter_clip_gradients optimizer optimizer_idx (gradient_clip_val tr)
                (gradient_clip_algorithm tr) (Some model)])"
    by (simp add: entries_made_def new_events_def)
next
  assume tr: "model_trainer model = Some tr"
    and raised: "optimizer_idx = 0 \<and> fst (private_track_grad_norm E tr w) \<noteq> Inr ()"
  obtain r1 w1 where t: "private_track_grad_norm E tr w = (r1, w1)"
    by (cases "private_track_grad_norm E tr w")
  with raised obtain e where "r1 = Inl e" by (cases r1) auto
  with t tr raised
  show "pre_optimizer_step E self model optimizer optimizer_idx w = private_track_grad_norm E tr w"
    by (simp add: pre_optimizer_step_def then_do_unfold)
qed

theorem pre_optimizer_step_entries_witness:
  "entries_made example_world
     (snd (pre_optimizer_step (quiet_env (Some [(''grad_2.0_norm_total'', Finite 3)])) example_plugin
             (LightningModule (example_module True (NormNum (IntNum 2)))) example_optimizer 0
             example_world))
     = [Enter_track_grad_norm,
        Enter_clip_gradients example_optimizer 0 (FloatNum (Finite (1 / 2))) VALUE
          (Some (LightningModule (example_module True (NormNum (IntNum 2)))))]
   \<and> entries_made example_world
     (snd (pre_optimizer_step (quiet_env (Some [(''grad_2.0_norm_total'', Finite 3)])) example_plugin
             (LightningModule (example_module True (NormNum (IntNum 2)))) example_optimizer 1
             example_world))
     = [Enter_clip_gradients example_optimizer 1 (FloatNum (Finite (1 / 2))) VALUE
          (Some (LightningModule (example_module True (NormNum (IntNum 2)))))]
   \<and> pre_optimizer_step raising_env example_plugin
        (LightningModule (example_module True (NormNum (IntNum 2)))) example_optimizer 0
        example_world
     = (Inl (Raised ''grad_norm''),
        example_world\<lparr>trace := [Enter_track_grad_norm, Grad_norm 1 (NormNum (IntNum 2)) ''/'']\<rparr>)"
proof -
  let ?E = "quiet_env (Some [(''grad_2.0_norm_total'', Finite 3)])"
  let ?m = "LightningModule (example_module True (NormNum (IntNum 2)))"
  let ?tr = "example_trainer (NormNum (IntNum 2))"
  have tr: "model_trainer ?m = Some ?tr"
    by (simp add: example_module_def)
  have returns: "fst (private_track_grad_norm ?E ?tr example_world) = Inr ()"
    by (simp add: private_track_grad_norm_def call_grad_norm_def call_log_grad_norm_def
          get_current_fx_name_def set_current_fx_name_def call_def return_def emit_def
          then_do_def bind_def example_trainer_def quiet_env_def)
  have raises: "private_track_grad_norm raising_env ?tr example_world
      = (Inl (Raised ''grad_norm''),
         example_world\<lparr>trace := [Enter_track_grad_norm, Grad_norm 1 (NormNum (IntNum 2)) ''/'']\<rparr>)"
    by (simp add: private_track_grad_norm_def call_grad_norm_def return_def emit_def
          then_do_def bind_def example_trainer_def raising_env_def example_world_def)
  note q0 = pre_optimizer_step_entries [of ?m ?tr example_world ?E example_plugin
      example_optimizer 0, rule_format, OF tr]
  note q1 = pre_optimizer_step_entries [of ?m ?tr example_world ?E example_plugin
      example_optimizer 1, rule_format, OF tr]
  note r0 = pre_optimizer_step_entries [of ?m ?tr example_world raising_env example_plugin
      example_optimizer 0, rule_format, OF tr]
  have "pre_optimizer_step raising_env example_plugin ?m example_optimizer 0 example_world
      = private_track_grad_norm raising_env ?tr example_world"
    using r0 [THEN conjunct2] raises by simp
  with raises returns q0 [THEN conjunct1] q1 [THEN conjunct1]
  show ?thesis by (simp add: example_trainer_def)
qed

text \<open>
  Claim C6. In one run of \<^verbatim>\<open>pre_optimizer_step\<close>, whether it returns or raises, no event
  of norm tracking (entering the tracker, computing the norms, reporting them) comes after
  an event of clipping, and the optimizer is not stepped. When \<^verbatim>\<open>optimizer_step\<close> follows
  the hook, no event of norm tracking and none of clipping comes after the optimizer's step.
\<close>

theorem pre_optimizer_step_order:
  "none_after is_norm_event is_clip_event
      (new_events w (snd (then_do (pre_optimizer_step E self model optimizer optimizer_idx)
                           (optimizer_step E m optimizer optimizer_idx closure_result kwargs) w)))
   \<and> none_after is_norm_event is_step_event
      (new_events w (snd (then_do (pre_optimizer_step E self model optimizer optimizer_idx)
                           (optimizer_step E m optimizer optimizer_idx closure_result kwargs) w)))
   \<and> none_after is_clip_event is_step_event
      (new_events w (snd (then_do (pre_optimizer_step E self model optimizer optimizer_idx)
                           (optimizer_step E m optimizer optimizer_idx closure_result kwargs) w)))
   \<and> none_after is_norm_event is_clip_event
      (new_events w (snd (pre_optimizer_step E self model optimizer optimizer_idx w)))
   \<and> filter is_step_event
      (new_events w (snd (pre_optimizer_step E self model optimizer optimizer_idx w))) = []"
proof -
  let ?P = "pre_optimizer_step E self model optimizer optimizer_idx"
  let ?S = "optimizer_step E m optimizer optimizer_idx closure_result kwargs"
  obtain A B C where ABC:
    "trace (snd (?P w)) = trace w @ A @ B @ C"
    "filter is_clip_event A = []" "filter is_step_event A = []"
    "filter is_norm_event B = []" "filter is_step_event B = []"
    "filter is_norm_event C = []" "filter is_clip_event C = []" "filter is_step_event C = []"
  proof (cases "model_trainer model")
    case None
    from pre_optimizer_step_no_trainer [OF None, of E self optimizer optimizer_idx w]
      that [of "[]" "[]" "[]"]
    show ?thesis by simp
  next
    case (Some tr)
    from pre_optimizer_step_trace [OF Some, of E self optimizer optimizer_idx w] that
    show ?thesis by blast
  qed
  have alone: "new_events w (snd (?P w)) = A @ B @ C"
    using ABC(1) by (simp add: new_events_def)
  obtain r1 w1 where p: "?P w = (r1, w1)" by (cases "?P w")
  obtain D where D: "trace (snd (then_do ?P ?S w)) = trace w1 @ D"
      "filter is_norm_event D = []" "filter is_clip_event D = []"
  proof (cases r1)
    case (Inl e)
    with p that [of "[]"] show ?thesis by (simp add: then_do_unfold)
  next
    case (Inr u)
    with p optimizer_step_trace [of E m optimizer optimizer_idx closure_result kwargs w1] that
    show ?thesis by (auto simp add: then_do_unfold)
  qed
  have both: "new_events w (snd (then_do ?P ?S w)) = A @ B @ C @ D"
    using ABC(1) D(1) p by (simp add: new_events_def)
  show ?thesis
    unfolding alone both
    using ABC(2-) D(2-)
    by (simp add: none_after_append none_after_no_later none_after_no_earlier)
qed

theorem pre_optimizer_step_order_witness:
  "new_events example_world
     (snd (then_do
             (pre_optimizer_step (quiet_env (Some [(''grad_2.0_norm_total'', Finite 3)]))
                example_plugin (LightningModule (example_module True (NormNum (IntNum 2))))
                example_optimizer 0)
             (optimizer_step (quiet_env (Some [(''grad_2.0_norm_total'', Finite 3)]))
                (example_module True (NormNum (IntNum 2))) example_optimizer 0 (Some (Tensor 9)) [])
             example_world))
     = [Enter_track_grad_norm,
        Grad_norm 1 (NormNum (IntNum 2)) ''/'',
        Log_grad_norm 1 [(''grad_2.0_norm_total'', Finite 3)] (Some ''on_before_optimizer_step''),
        Enter_clip_gradients example_optimizer 0 (FloatNum (Finite (1 / 2))) VALUE
          (Some (LightningModule (example_module True (NormNum (IntNum 2))))),
        Configure_gradient_clipping (LightningModule (example_module True (NormNum (IntNum 2))))
          example_optimizer 0 (FloatNum (Finite (1 / 2))) VALUE,
        Call_hook ''on_before_optimizer_step'' example_optimizer 0,
        Optimizer_step example_optimizer []]
   \<and> none_after is_norm_event is_clip_event
       (new_events example_world
         (snd (then_do
             (pre_optimizer_step (quiet_env (Some [(''grad_2.0_norm_total'', Finite 3)]))
                example_plugin (LightningModule (example_module True (NormNum (IntNum 2))))
                example_optimizer 0)
             (optimizer_step (quiet_env (Some [(''grad_2.0_norm_total'', Finite 3)]))
                (example_module True (NormNum (IntNum 2))) example_optimizer 0 (Some (Tensor 9)) [])
             example_world)))"
proof -
  let ?E = "quiet_env (Some [(''grad_2.0_norm_total'', Finite 3)])"
  let ?m = "example_module True (NormNum (IntNum 2))"
  have run: "new_events example_world
     (snd (then_do
             (pre_optimizer_step ?E example_plugin (LightningModule ?m) example_optimizer 0)
             (optimizer_step ?E ?m example_optimizer 0 (Some (Tensor 9)) [])
             example_world))
     = [Enter_track_grad_norm,
        Grad_norm 1 (NormNum (IntNum 2)) ''/'',
        Log_grad_norm 1 [(''grad_2.0_norm_total'', Finite 3)] (Some ''on_before_optimizer_step''),
        Enter_clip_gradients example_optimizer 0 (FloatNum (Finite (1 / 2))) VALUE
          (Some (LightningModule ?m)),
        Configure_gradient_clipping (LightningModule ?m)
          example_optimizer 0 (FloatNum (Finite (1 / 2))) VALUE,
        Call_hook ''on_before_optimizer_step'' example_optimizer 0,
        Optimizer_step example_optimizer []]"
    by (simp add: run_defs example_module_def example_trainer_def quiet_env_def
          example_world_def example_plugin_def new_events_def)
  from pre_optimizer_step_order [of example_world ?E example_plugin "LightningModule ?m"
      example_optimizer 0 ?m "Some (Tensor 9)" "[]", THEN conjunct1]
  show ?thesis using run by simp
qed

section \<open>Backward\<close>

text \<open>
  Claim C3. With no model, or with a model that is not a \<^verbatim>\<open>LightningModule\<close>, and no extra
  argument, \<^verbatim>\<open>backward\<close> raises \<^verbatim>\<open>TypeError\<close> and calls nothing: line 79 calls
  \<^verbatim>\<open>_run_backward\<close> without the argument for its parameter \<^verbatim>\<open>model\<close>, so
  \<^verbatim>\<open>tensor.backward\<close> is not reached.
\<close>

theorem backward_without_model_raises:
  "backward E None closure_loss optimizer [] [] w = (Inl TypeError, w)
   \<and> backward E (Some (Module m)) closure_loss optimizer [] [] w = (Inl TypeError, w)
   \<and> filter (\<lambda>ev. ev = Tensor_backward closure_loss [] [])
       (new_events w (snd (backward E None closure_loss optimizer [] [] w))) = []"
  by (simp add: backward_def bind_run_backward_def raise_def new_events_def)

text \<open>
  What \<^verbatim>\<open>backward\<close> does otherwise. A \<^verbatim>\<open>LightningModule\<close> gets the one call
  \<^verbatim>\<open>model.backward(closure_loss, optimizer, *args, **kwargs)\<close>. With no such model and at least
  one extra positional argument (and no keyword named after a parameter of
  \<^verbatim>\<open>_run_backward\<close>), the first extra argument is taken for \<^verbatim>\<open>model\<close> and the call is
  \<^verbatim>\<open>closure_loss.backward\<close> on the other arguments.
\<close>

theorem backward_dispatch:
  "backward E (Some (LightningModule m)) closure_loss optimizer args kwargs w
     = call E (Model_backward m closure_loss optimizer args kwargs) w
   \<and> (''self'' \<notin> set (map fst kwargs) \<and> ''tensor'' \<notin> set (map fst kwargs)
       \<and> ''model'' \<notin> set (map fst kwargs) \<longrightarrow>
       backward E None closure_loss optimizer (a # args) kwargs w
         = call E (Tensor_backward closure_loss args kwargs) w
       \<and> backward E (Some (Module m')) closure_loss optimizer (a # args) kwargs w
         = call E (Tensor_backward closure_loss args kwargs) w)"
  by (simp add: backward_def bind_run_backward_def private_run_backward_def)

theorem backward_dispatch_witness:
  "backward (quiet_env None) (Some (LightningModule (example_module True (NormNum (IntNum 2)))))
      (Tensor 9) (Some example_optimizer) [0] [(''retain_graph'', 1)] example_world
     = (Inr (),
        example_world\<lparr>trace :=
          [Model_backward (example_module True (NormNum (IntNum 2))) (Tensor 9)
             (Some example_optimizer) [0] [(''retain_graph'', 1)]]\<rparr>)
   \<and> backward (quiet_env None) None (Tensor 9) (Some example_optimizer) [0, 5]
        [(''retain_graph'', 1)] example_world
     = (Inr (),
        example_world\<lparr>trace := [Tensor_backward (Tensor 9) [5] [(''retain_graph'', 1)]]\<rparr>)"
  using
    backward_dispatch [of "quiet_env None" "example_module True (NormNum (IntNum 2))" "Tensor 9"
      "Some example_optimizer" "[0]" "[(''retain_graph'', 1)]" example_world 0]
    backward_dispatch [of "quiet_env None" "example_module True (NormNum (IntNum 2))" "Tensor 9"
      "Some example_optimizer" "[5]" "[(''retain_graph'', 1)]" example_world 0]
  by (simp add: call_def quiet_env_def example_world_def)

section \<open>The step contexts\<close>

text \<open>
  A step context around a body does what the \<^verbatim>\<open>forward_context\<close> it enters does around
  that body; the base \<^verbatim>\<open>forward_context\<close> around a body is the body.
\<close>

lemma with_stmt_step_context:
  "with_stmt (contextmanager (With_Yield c)) body w = with_stmt c body w"
proof (cases "cm_enter c w")
  case (Pair r w1)
  show ?thesis
  proof (cases r)
    case (Inl e)
    with Pair show ?thesis by (simp add: with_stmt_def contextmanager_def)
  next
    case (Inr u)
    obtain r2 w2 where b: "body w1 = (r2, w2)" by (cases "body w1")
    show ?thesis
    proof (cases r2)
      case (Inl e)
      obtain r3 w3 where x: "cm_exit c (Some e) w2 = (r3, w3)" by (cases "cm_exit c (Some e) w2")
      show ?thesis using Pair Inr b Inl x
        by (cases r3) (auto simp add: with_stmt_def contextmanager_def raise_def)
    next
      case (Inr u2)
      obtain r3 w3 where x: "cm_exit c None w2 = (r3, w3)" by (cases "cm_exit c None w2")
      show ?thesis using Pair \<open>r = Inr u\<close> b Inr x
        by (cases r3) (auto simp add: with_stmt_def contextmanager_def return_def)
    qed
  qed
qed

lemma with_stmt_forward_context: "with_stmt forward_context body w = body w"
proof -
  obtain r2 w2 where b: "body w = (r2, w2)" by (cases "body w")
  show ?thesis using b
    by (cases r2) (auto simp add: with_stmt_def forward_context_def contextmanager_def return_def raise_def)
qed

text \<open>
  Claim C8. For every body and every world, \<^verbatim>\<open>with\<close> on the train, validation, test or
  predict step context runs as \<^verbatim>\<open>with\<close> on the forward context the step context enters:
  the same \<^verbatim>\<open>__enter__\<close>, one run of the body, the same \<^verbatim>\<open>__exit__\<close> whether the body
  returns or raises, and the same result. In the base class, whose forward context is a
  bare \<^verbatim>\<open>yield\<close>, each of them is one run of the body and nothing else.
\<close>

theorem step_contexts_equivalent:
  "with_stmt (train_step_context c) body w = with_stmt c body w
   \<and> with_stmt (val_step_context c) body w = with_stmt c body w
   \<and> with_stmt (test_step_context c) body w = with_stmt c body w
   \<and> with_stmt (predict_step_context c) body w = with_stmt c body w
   \<and> with_stmt (train_step_context forward_context) body w = body w
   \<and> with_stmt (val_step_context forward_context) body w = body w
   \<and> with_stmt (test_step_context forward_context) body w = body w
   \<and> with_stmt (predict_step_context forward_context) body w = body w"
  by (simp add: train_step_context_def val_step_context_def test_step_context_def
        predict_step_context_def with_stmt_step_context with_stmt_forward_context)

theorem step_contexts_equivalent_witness:
  "with_stmt (train_step_context recording_context) failing_body example_world
     = (Inl (Raised ''training_step''),
        example_world\<lparr>trace :=
          [Other_call ''__enter__'', Other_call ''training_step'', Other_call ''__exit__'']\<rparr>)
   \<and> with_stmt (predict_step_context forward_context) failing_body example_world
     = (Inl (Raised ''training_step''),
        example_world\<lparr>trace := [Other_call ''training_step'']\<rparr>)"
  using step_contexts_equivalent [of recording_context failing_body example_world]
  by (simp add: with_stmt_def recording_context_def failing_body_def example_world_def
        emit_def then_do_def bind_def return_def raise_def)

end
